theory Spec2Isabelle
  imports Main "HOL-Library.Word" "HOL-Library.AList"
begin

unbundle bit_operations_syntax

section \<open>The scull ioctl driver (driver/scull.c)\<close>

text \<open>
  The driver keeps two pieces of module-wide state: the integer \<open>scull_quantum\<close> and the
  linked list \<open>task_info_node_list\<close> of (pid, tgid) pairs, the latter only touched while
  \<open>task_info_node_mutex\<close> is held. \<open>scull_ioctl\<close> dispatches on the command word;
  \<open>scull_cleanup_module\<close> prints and frees the list.

  The embedding is for an LP64 kernel: \<open>int\<close>, \<open>unsigned int\<close> and \<open>pid_t\<close> are 32 bits
  wide, \<open>long\<close> and \<open>unsigned long\<close> 64 bits. A signed and an unsigned C type of one
  width are the same word type; \<open>sint\<close> reads the signed value, \<open>scast\<close> is the
  sign-extending conversion from \<open>int\<close> to \<open>long\<close>, \<open>ucast\<close> the truncating one from
  \<open>unsigned long\<close> to \<open>int\<close>.
\<close>

subsection \<open>C types\<close>

type_synonym c_int = "32 word"
type_synonym c_uint = "32 word"
type_synonym c_long = "64 word"
type_synonym c_ulong = "64 word"

text \<open>The two error numbers the dispatcher returns (from \<open>linux/errno.h\<close>).\<close>

definition ENOTTY :: c_int where
  "ENOTTY = 25"

definition EFAULT :: c_int where
  "EFAULT = 14"

subsection \<open>Decoding of ioctl command words\<close>

text \<open>
  \<open>_IOC_NR\<close>, \<open>_IOC_TYPE\<close> and \<open>_IOC_SIZE\<close> of \<open>asm-generic/ioctl.h\<close>: the number is in bits
  0..7, the type in bits 8..15, the size in bits 16..29 (the direction in bits 30..31).
\<close>

definition IOC_NR :: "c_uint \<Rightarrow> c_uint" where
  "IOC_NR cmd = cmd AND 0xFF"

definition IOC_TYPE :: "c_uint \<Rightarrow> c_uint" where
  "IOC_TYPE cmd = drop_bit 8 cmd AND 0xFF"

definition IOC_SIZE :: "c_uint \<Rightarrow> c_uint" where
  "IOC_SIZE cmd = drop_bit 16 cmd AND 0x3FFF"

subsection \<open>The header scull.h\<close>

text \<open>
  \<open>scull.h\<close> is not among the sources. What the driver takes from it are the default
  quantum, the magic number, the highest command number and the eight command words;
  they are parameters of the model, and every theorem on \<open>scull_ioctl\<close> holds for all
  their values.
\<close>

record scull_h =
  SCULL_QUANTUM :: c_int
  SCULL_IOC_MAGIC :: c_uint
  SCULL_IOC_MAXNR :: c_uint
  SCULL_IOCRESET :: c_uint
  SCULL_IOCSQUANTUM :: c_uint
  SCULL_IOCTQUANTUM :: c_uint
  SCULL_IOCGQUANTUM :: c_uint
  SCULL_IOCQQUANTUM :: c_uint
  SCULL_IOCXQUANTUM :: c_uint
  SCULL_IOCHQUANTUM :: c_uint
  SCULL_IOCIQUANTUM :: c_uint

text \<open>
  The labels of a C \<open>switch\<close> are pairwise different, or the driver does not compile.
\<close>

definition case_labels :: "scull_h \<Rightarrow> c_uint list" where
  "case_labels h =
     [SCULL_IOCRESET h, SCULL_IOCSQUANTUM h, SCULL_IOCTQUANTUM h, SCULL_IOCGQUANTUM h,
      SCULL_IOCQQUANTUM h, SCULL_IOCXQUANTUM h, SCULL_IOCHQUANTUM h, SCULL_IOCIQUANTUM h]"

definition labels_distinct :: "scull_h \<Rightarrow> bool" where
  "labels_distinct h = distinct (case_labels h)"

text \<open>
  Modelled from the spec: \<open>struct task_info\<close> is declared in the missing \<open>scull.h\<close>. It is
  the scheduling snapshot of the specification (state, execution unit, priority, pid,
  tgid, voluntary and involuntary switch counts); the seven fields are those the driver
  assigns, with the types the client prints them with (\<open>%ld %u %d %i %i %lu %lu\<close>).
\<close>

record task_info =
  ti_state :: c_long
  ti_cpu :: c_uint
  ti_prio :: c_int
  ti_pid :: c_int
  ti_tgid :: c_int
  ti_nvcsw :: c_ulong
  ti_nivcsw :: c_ulong

subsection \<open>Kernel objects the driver reads and writes\<close>

text \<open>The fields of \<open>current\<close> (a \<open>struct task_struct\<close>) that the driver reads.\<close>

record task_struct =
  ts_state :: c_long
  ts_cpu :: c_uint
  ts_prio :: c_int
  ts_pid :: c_int
  ts_tgid :: c_int
  ts_nvcsw :: c_ulong
  ts_nivcsw :: c_ulong

text \<open>
  \<open>struct task_info_node\<close> without its \<open>list_head\<close>: the kernel's circular list is the HOL
  list of its nodes from the head on, \<open>list_add_tail\<close> appends at the end.
\<close>

record task_info_node =
  node_pid :: c_int
  node_tgid :: c_int

text \<open>The lines the driver hands to \<open>printk\<close>, with the arguments of their formats.\<close>

datatype kmsg =
    KERN_ERR_alloc_failed
  | KERN_INFO_task c_int c_int c_int

record scull_state =
  scull_quantum :: c_int
  task_info_node_list :: "task_info_node list"
  klog :: "kmsg list"

subsection \<open>User-space access\<close>

text \<open>
  \<open>access_ok\<close>, \<open>__get_user\<close>, \<open>__put_user\<close> and \<open>copy_to_user\<close> belong to the kernel, not to
  the driver. The model takes them as parameters over an arbitrary type \<open>'m\<close> of user
  memories:
  \<^item> \<open>access_ok m a n\<close>: the kernel's check of the \<open>n\<close> bytes at \<open>a\<close>;
  \<^item> \<open>load_int m a\<close>: the \<open>int\<close> read at \<open>a\<close>, or \<open>None\<close> when the access faults;
  \<^item> \<open>store_int m a v\<close>: the memory after the \<open>int\<close> \<open>v\<close> is written at \<open>a\<close>, or \<open>None\<close> when
    the access faults;
  \<^item> \<open>copy_to_user m a t\<close>: the number of bytes of the structure \<open>t\<close> that could not be
    copied to \<open>a\<close> (0 on success) and the memory after the copy.
\<close>

record 'm uaccess =
  access_ok :: "'m \<Rightarrow> c_ulong \<Rightarrow> c_ulong \<Rightarrow> bool"
  load_int :: "'m \<Rightarrow> c_ulong \<Rightarrow> c_int option"
  store_int :: "'m \<Rightarrow> c_ulong \<Rightarrow> c_int \<Rightarrow> 'm option"
  copy_to_user :: "'m \<Rightarrow> c_ulong \<Rightarrow> task_info \<Rightarrow> c_ulong \<times> 'm"

text \<open>
  \<open>__get_user(x, ptr)\<close> always assigns \<open>x\<close>: the value read and result 0, or 0 and result
  \<open>-EFAULT\<close> when the access faults. \<open>__put_user(x, ptr)\<close> returns 0 after the store, or
  \<open>-EFAULT\<close> with nothing stored.
\<close>

definition nocheck_get_user :: "'m uaccess \<Rightarrow> 'm \<Rightarrow> c_ulong \<Rightarrow> c_int \<times> c_int" where
  "nocheck_get_user K um ptr =
     (case load_int K um ptr of
        Some v \<Rightarrow> (0, v)
      | None \<Rightarrow> (- EFAULT, 0))"

definition nocheck_put_user :: "'m uaccess \<Rightarrow> 'm \<Rightarrow> c_int \<Rightarrow> c_ulong \<Rightarrow> c_int \<times> 'm" where
  "nocheck_put_user K um x ptr =
     (case store_int K um ptr x of
        Some um' \<Rightarrow> (0, um')
      | None \<Rightarrow> (- EFAULT, um))"

subsection \<open>The ioctl implementation\<close>

text \<open>The \<open>list_for_each_entry\<close> loop of \<open>SCULL_IOCIQUANTUM\<close>, which sets \<open>found\<close>.\<close>

fun find_task :: "task_info_node list \<Rightarrow> c_int \<Rightarrow> c_int \<Rightarrow> bool" where
  "find_task [] p t = False"
| "find_task (task_iter # rest) p t =
     (if node_pid task_iter = p \<and> node_tgid task_iter = t then True
      else find_task rest p t)"

text \<open>The seven assignments that fill \<open>tmp_struct\<close> from \<open>current\<close>.\<close>

definition fill_tmp_struct :: "task_struct \<Rightarrow> task_info" where
  "fill_tmp_struct current =
     \<lparr>ti_state = ts_state current, ti_cpu = ts_cpu current, ti_prio = ts_prio current,
      ti_pid = ts_pid current, ti_tgid = ts_tgid current, ti_nvcsw = ts_nvcsw current,
      ti_nivcsw = ts_nivcsw current\<rparr>"

text \<open>
  The body of \<open>case SCULL_IOCIQUANTUM\<close>. \<open>kmalloc_ok\<close> says whether the \<open>kmalloc\<close> of this
  call, if it is made, returns a node. The result of \<open>copy_to_user\<close>, an
  \<open>unsigned long\<close>, is assigned to the \<open>int retval\<close>.
\<close>

definition scull_iociquantum ::
  "'m uaccess \<Rightarrow> task_struct \<Rightarrow> bool \<Rightarrow> scull_state \<Rightarrow> 'm \<Rightarrow> c_ulong \<Rightarrow> c_int \<times> scull_state \<times> 'm"
where
  "scull_iociquantum K current kmalloc_ok s um arg =
     (let tmp_struct = fill_tmp_struct current;
          (left, um') = copy_to_user K um arg tmp_struct;
          retval = (ucast left :: c_int)
      in if retval \<noteq> 0 then (retval, s, um')
         else if find_task (task_info_node_list s) (ts_pid current) (ts_tgid current)
           then (retval, s, um')
         else if \<not> kmalloc_ok
           then (retval, s\<lparr>klog := klog s @ [KERN_ERR_alloc_failed]\<rparr>, um')
         else (retval,
               s\<lparr>task_info_node_list := task_info_node_list s @
                    [\<lparr>node_pid = ts_pid current, node_tgid = ts_tgid current\<rparr>]\<rparr>,
               um'))"

text \<open>
  \<open>scull_ioctl\<close>: the result is the \<open>long\<close> returned, the module state and the caller's
  memory after the call. The \<open>switch\<close> is the chain of comparisons in the order of its
  labels.
\<close>

definition scull_ioctl ::
  "'m uaccess \<Rightarrow> scull_h \<Rightarrow> task_struct \<Rightarrow> bool \<Rightarrow> scull_state \<Rightarrow> 'm \<Rightarrow> c_uint \<Rightarrow> c_ulong
     \<Rightarrow> c_long \<times> scull_state \<times> 'm"
where
  "scull_ioctl K h current kmalloc_ok s um cmd arg =
     (if IOC_TYPE cmd \<noteq> SCULL_IOC_MAGIC h then (scast (- ENOTTY), s, um)
      else if IOC_NR cmd > SCULL_IOC_MAXNR h then (scast (- ENOTTY), s, um)
      else if \<not> access_ok K um arg (ucast (IOC_SIZE cmd)) then (scast (- EFAULT), s, um)
      else if cmd = SCULL_IOCRESET h then
        (0, s\<lparr>scull_quantum := SCULL_QUANTUM h\<rparr>, um)
      else if cmd = SCULL_IOCSQUANTUM h then
        (let (retval, q) = nocheck_get_user K um arg
         in (scast retval, s\<lparr>scull_quantum := q\<rparr>, um))
      else if cmd = SCULL_IOCTQUANTUM h then
        (0, s\<lparr>scull_quantum := ucast arg\<rparr>, um)
      else if cmd = SCULL_IOCGQUANTUM h then
        (let (retval, um') = nocheck_put_user K um (scull_quantum s) arg
         in (scast retval, s, um'))
      else if cmd = SCULL_IOCQQUANTUM h then
        (scast (scull_quantum s), s, um)
      else if cmd = SCULL_IOCXQUANTUM h then
        (let tmp = scull_quantum s;
             (retval, q) = nocheck_get_user K um arg;
             s' = s\<lparr>scull_quantum := q\<rparr>
         in if retval = 0
            then (let (retval', um') = nocheck_put_user K um tmp arg
                  in (scast retval', s', um'))
            else (scast retval, s', um))
      else if cmd = SCULL_IOCHQUANTUM h then
        (let tmp = scull_quantum s
         in (scast tmp, s\<lparr>scull_quantum := ucast arg\<rparr>, um))
      else if cmd = SCULL_IOCIQUANTUM h then
        (let (retval, s', um') = scull_iociquantum K current kmalloc_ok s um arg
         in (scast retval, s', um'))
      else (scast (- ENOTTY), s, um))"

subsection \<open>Module cleanup\<close>

text \<open>
  The \<open>list_for_each_entry_safe\<close> loop of \<open>scull_cleanup_module\<close>: each round prints the
  node at the head with the counter, unlinks and frees it, and increments the counter.
  The result is the list left when the loop ends and the lines printed.
\<close>

fun drain_list :: "c_int \<Rightarrow> task_info_node list \<Rightarrow> kmsg list \<Rightarrow> task_info_node list \<times> kmsg list" where
  "drain_list count [] out = ([], out)"
| "drain_list count (node # temp_node) out =
     drain_list (count + 1) temp_node
       (out @ [KERN_INFO_task count (node_pid node) (node_tgid node)])"

definition scull_cleanup_module :: "scull_state \<Rightarrow> scull_state" where
  "scull_cleanup_module s =
     (let (l, out) = drain_list 1 (task_info_node_list s) (klog s)
      in s\<lparr>task_info_node_list := l, klog := out\<rparr>)"

subsection \<open>Sequences of calls\<close>

text \<open>
  One call of \<open>ioctl\<close> as the driver sees it: the calling task, the outcome of the
  allocation it may make, the caller's memory, the command word and the argument. The
  list is only read and changed between \<open>mutex_lock\<close> and \<open>mutex_unlock\<close>, so concurrent
  calls act on it one after the other, in the order in which they take the mutex;
  \<open>run_calls\<close> runs the calls in that order.
\<close>

record 'm ioctl_call =
  call_current :: task_struct
  call_kmalloc_ok :: bool
  call_um :: 'm
  call_cmd :: c_uint
  call_arg :: c_ulong

definition do_call :: "'m uaccess \<Rightarrow> scull_h \<Rightarrow> scull_state \<Rightarrow> 'm ioctl_call \<Rightarrow> scull_state" where
  "do_call K h s c =
     fst (snd (scull_ioctl K h (call_current c) (call_kmalloc_ok c) s (call_um c)
                 (call_cmd c) (call_arg c)))"

definition run_calls :: "'m uaccess \<Rightarrow> scull_h \<Rightarrow> scull_state \<Rightarrow> 'm ioctl_call list \<Rightarrow> scull_state" where
  "run_calls K h s cs = foldl (do_call K h) s cs"

text \<open>The identity of the caller: the pair the driver compares and stores.\<close>

definition caller_id :: "'m ioctl_call \<Rightarrow> c_int \<times> c_int" where
  "caller_id c = (ts_pid (call_current c), ts_tgid (call_current c))"

definition node_id :: "task_info_node \<Rightarrow> c_int \<times> c_int" where
  "node_id n = (node_pid n, node_tgid n)"

text \<open>
  The three checks at the head of \<open>scull_ioctl\<close>, all passed: the type is the magic
  number, the number is not above the maximum, and \<open>access_ok\<close> accepts the argument with
  the size encoded in the command word.
\<close>

definition checks_pass :: "'m uaccess \<Rightarrow> scull_h \<Rightarrow> 'm \<Rightarrow> c_uint \<Rightarrow> c_ulong \<Rightarrow> bool" where
  "checks_pass K h um cmd arg =
     (IOC_TYPE cmd = SCULL_IOC_MAGIC h \<and> \<not> IOC_NR cmd > SCULL_IOC_MAXNR h \<and>
      access_ok K um arg (ucast (IOC_SIZE cmd)))"

text \<open>
  A call that can add its caller to the list: a \<open>SCULL_IOCIQUANTUM\<close> that passes the
  checks, whose \<open>copy_to_user\<close> leaves \<open>retval\<close> 0 and whose allocation succeeds.
\<close>

definition can_record :: "'m uaccess \<Rightarrow> scull_h \<Rightarrow> 'm ioctl_call \<Rightarrow> bool" where
  "can_record K h c =
     (call_cmd c = SCULL_IOCIQUANTUM h \<and>
      checks_pass K h (call_um c) (call_cmd c) (call_arg c) \<and>
      (ucast (fst (copy_to_user K (call_um c) (call_arg c)
                     (fill_tmp_struct (call_current c)))) :: c_int) = 0 \<and>
      call_kmalloc_ok c)"

text \<open>
  The sequential program \<open>old := QUERY(); TELL(v); return old\<close> that the specification
  compares \<open>SHIFT(v)\<close> with: a \<open>SCULL_IOCQQUANTUM\<close> call (with some argument word \<open>a\<close>),
  then a \<open>SCULL_IOCTQUANTUM\<close> call with \<open>v\<close>, the result of the first being returned.
\<close>

definition query_then_tell ::
  "'m uaccess \<Rightarrow> scull_h \<Rightarrow> task_struct \<Rightarrow> bool \<Rightarrow> scull_state \<Rightarrow> 'm \<Rightarrow> c_ulong \<Rightarrow> c_ulong
     \<Rightarrow> c_long \<times> scull_state \<times> 'm"
where
  "query_then_tell K h current kmalloc_ok s um a v =
     (let (old, s1, um1) = scull_ioctl K h current kmalloc_ok s um (SCULL_IOCQQUANTUM h) a;
          (r, s2, um2) = scull_ioctl K h current kmalloc_ok s1 um1 (SCULL_IOCTQUANTUM h) v
      in (old, s2, um2))"

text \<open>The elements of a list in the order of their first occurrence.\<close>

fun first_occurrences :: "'a list \<Rightarrow> 'a list" where
  "first_occurrences [] = []"
| "first_occurrences (x # xs) = x # first_occurrences (filter (\<lambda>y. y \<noteq> x) xs)"

text \<open>
  The report of the cleanup: the \<open>Task %d: PID %d, TGID %d\<close> lines of the log, as triples.
\<close>

fun task_lines :: "kmsg list \<Rightarrow> (c_int \<times> c_int \<times> c_int) list" where
  "task_lines [] = []"
| "task_lines (KERN_INFO_task n p t # ms) = (n, p, t) # task_lines ms"
| "task_lines (KERN_ERR_alloc_failed # ms) = task_lines ms"

definition teardown_report :: "scull_state \<Rightarrow> (c_int \<times> c_int \<times> c_int) list" where
  "teardown_report s = task_lines (klog (scull_cleanup_module s))"

text \<open>
  Numbering from 1 in the type of \<open>count\<close>: the entry at position \<open>i\<close> (from 0) carries
  the number \<open>1 + i\<close>.
\<close>

definition numbered :: "(c_int \<times> c_int) list \<Rightarrow> (c_int \<times> c_int \<times> c_int) list" where
  "numbered ids = map (\<lambda>i. (1 + of_nat i, ids ! i)) [0..<length ids]"

text \<open>Appending an identity unless it is there already.\<close>

definition add_new :: "'a list \<Rightarrow> 'a \<Rightarrow> 'a list" where
  "add_new l x = (if x \<in> set l then l else l @ [x])"

subsection \<open>A header and a kernel to run the driver on\<close>

text \<open>
  The macros of \<open>asm-generic/ioctl.h\<close> that build command words: \<open>_IOC(dir, type, nr, size)\<close>
  with the directions \<open>_IOC_NONE = 0\<close>, \<open>_IOC_WRITE = 1\<close>, \<open>_IOC_READ = 2\<close>.
\<close>

definition IOC :: "c_uint \<Rightarrow> c_uint \<Rightarrow> c_uint \<Rightarrow> c_uint \<Rightarrow> c_uint" where
  "IOC dir ty nr sz = push_bit 30 dir OR push_bit 8 ty OR nr OR push_bit 16 sz"

text \<open>
  Modelled from the spec: the contents of the missing \<open>scull.h\<close>, for running the driver
  on concrete inputs. The default quantum 4000 is the one of the specification's
  scenario. The command words are built in the way of the book the driver comes from,
  with the magic \<open>'k'\<close> (0x6B) and the numbers 0 to 7 in the order of the \<open>switch\<close>:
  \<open>_IO(k,0)\<close>, \<open>_IOW(k,1,int)\<close>, \<open>_IO(k,2)\<close>, \<open>_IOR(k,3,int)\<close>, \<open>_IO(k,4)\<close>, \<open>_IOWR(k,5,int)\<close>,
  \<open>_IO(k,6)\<close> and \<open>_IOR(k,7,struct task_info)\<close>, the structure being 40 bytes long. A
  command that passes its argument by value or takes none has size 0, one that passes
  a pointer has the size of what it points to.
\<close>

definition book_scull_h :: scull_h where
  "book_scull_h =
     \<lparr>SCULL_QUANTUM = 4000, SCULL_IOC_MAGIC = 0x6B, SCULL_IOC_MAXNR = 7,
      SCULL_IOCRESET = 0x6B00, SCULL_IOCSQUANTUM = 0x40046B01, SCULL_IOCTQUANTUM = 0x6B02,
      SCULL_IOCGQUANTUM = 0x80046B03, SCULL_IOCQQUANTUM = 0x6B04,
      SCULL_IOCXQUANTUM = 0xC0046B05, SCULL_IOCHQUANTUM = 0x6B06,
      SCULL_IOCIQUANTUM = 0x80286B07\<rparr>"

text \<open>
  A kernel to run the driver on: a user memory made of \<open>int\<close> variables, each readable
  or not and writable or not, and of writable buffers for a \<open>struct task_info\<close>; every
  other address is unmapped. \<open>user_addr_max\<close> is the end of the user address range.
\<close>

record int_var =
  var_readable :: bool
  var_writable :: bool
  var_value :: c_int

record user_mem =
  user_addr_max :: nat
  int_vars :: "(c_ulong \<times> int_var) list"
  task_bufs :: "(c_ulong \<times> task_info option) list"

text \<open>
  The kernel's primitives on this memory. \<open>access_ok\<close> is the range check: the region must
  end within the user address range. A load or store of an \<open>int\<close> faults unless there is
  a variable with the permission at the address. \<open>copy_to_user\<close> fills the buffer at the
  address, or copies nothing and returns the size of the structure.
\<close>

definition um_access_ok :: "user_mem \<Rightarrow> c_ulong \<Rightarrow> c_ulong \<Rightarrow> bool" where
  "um_access_ok m a n = (unat a + unat n \<le> user_addr_max m)"

definition um_load_int :: "user_mem \<Rightarrow> c_ulong \<Rightarrow> c_int option" where
  "um_load_int m a =
     (case map_of (int_vars m) a of
        None \<Rightarrow> None
      | Some v \<Rightarrow> if var_readable v then Some (var_value v) else None)"

definition um_store_int :: "user_mem \<Rightarrow> c_ulong \<Rightarrow> c_int \<Rightarrow> user_mem option" where
  "um_store_int m a x =
     (case map_of (int_vars m) a of
        None \<Rightarrow> None
      | Some v \<Rightarrow>
          if var_writable v
          then Some (m\<lparr>int_vars := AList.update a (v\<lparr>var_value := x\<rparr>) (int_vars m)\<rparr>)
          else None)"

definition um_copy_to_user :: "user_mem \<Rightarrow> c_ulong \<Rightarrow> task_info \<Rightarrow> c_ulong \<times> user_mem" where
  "um_copy_to_user m a t =
     (case map_of (task_bufs m) a of
        None \<Rightarrow> (40, m)
      | Some b \<Rightarrow> (0, m\<lparr>task_bufs := AList.update a (Some t) (task_bufs m)\<rparr>))"

definition um_uaccess :: "user_mem uaccess" where
  "um_uaccess =
     \<lparr>access_ok = um_access_ok, load_int = um_load_int, store_int = um_store_int,
      copy_to_user = um_copy_to_user\<rparr>"

text \<open>
  The module state right after loading with the default parameters: the static
  initialisers of \<open>scull_quantum\<close> and of the list head, and nothing printed yet.
\<close>

definition loaded_state :: "scull_h \<Rightarrow> scull_state" where
  "loaded_state h = \<lparr>scull_quantum = SCULL_QUANTUM h, task_info_node_list = [], klog = []\<rparr>"

text \<open>A calling task with the given pid and tgid.\<close>

definition task_of :: "c_int \<Rightarrow> c_int \<Rightarrow> task_struct" where
  "task_of p t =
     \<lparr>ts_state = 0, ts_cpu = 1, ts_prio = 120, ts_pid = p, ts_tgid = t, ts_nvcsw = 5,
      ts_nivcsw = 2\<rparr>"

text \<open>
  A caller's memory on x86-64 (the user range ends at 0x7FFFFFFFF000): a read-write \<open>int\<close>
  holding 1 at 0x1000, a read-only \<open>int\<close> holding 7 at 0x3000, and an empty buffer for the
  structure at 0x2000.
\<close>

definition demo_mem :: user_mem where
  "demo_mem =
     \<lparr>user_addr_max = 0x7FFFFFFFF000,
      int_vars = [(0x1000, \<lparr>var_readable = True, var_writable = True, var_value = 1\<rparr>),
                  (0x3000, \<lparr>var_readable = True, var_writable = False, var_value = 7\<rparr>)],
      task_bufs = [(0x2000, None)]\<rparr>"

text \<open>A \<open>SCULL_IOCIQUANTUM\<close> call by the task \<open>(p, t)\<close> with the buffer of \<open>demo_mem\<close>.\<close>

definition identify_call :: "c_int \<Rightarrow> c_int \<Rightarrow> bool \<Rightarrow> user_mem ioctl_call" where
  "identify_call p t km =
     \<lparr>call_current = task_of p t, call_kmalloc_ok = km, call_um = demo_mem,
      call_cmd = SCULL_IOCIQUANTUM book_scull_h, call_arg = 0x2000\<rparr>"

section \<open>Properties\<close>

subsection \<open>The dispatcher, command by command\<close>

lemma scast_neg_ENOTTY: "(scast (- ENOTTY) :: c_long) = - 25"
  by (simp add: ENOTTY_def)

lemma scast_neg_EFAULT: "(scast (- EFAULT) :: c_long) = - 14"
  by (simp add: EFAULT_def)

lemma neg_EFAULT_nonzero: "EFAULT \<noteq> 0"
  by (simp add: EFAULT_def)

lemma ioctl_wrong_type:
  "IOC_TYPE cmd \<noteq> SCULL_IOC_MAGIC h \<Longrightarrow>
   scull_ioctl K h cur km s um cmd arg = (scast (- ENOTTY), s, um)"
  by (simp add: scull_ioctl_def)

lemma ioctl_nr_too_big:
  "IOC_NR cmd > SCULL_IOC_MAXNR h \<Longrightarrow>
   scull_ioctl K h cur km s um cmd arg = (scast (- ENOTTY), s, um)"
  by (simp add: scull_ioctl_def)

lemma ioctl_not_access_ok:
  "IOC_TYPE cmd = SCULL_IOC_MAGIC h \<Longrightarrow> \<not> IOC_NR cmd > SCULL_IOC_MAXNR h \<Longrightarrow>
   \<not> access_ok K um arg (ucast (IOC_SIZE cmd)) \<Longrightarrow>
   scull_ioctl K h cur km s um cmd arg = (scast (- EFAULT), s, um)"
  by (simp add: scull_ioctl_def)

lemma later_label_neq:
  assumes "labels_distinct h"
  shows "SCULL_IOCSQUANTUM h \<noteq> SCULL_IOCRESET h"
    and "SCULL_IOCTQUANTUM h \<noteq> SCULL_IOCRESET h"
    and "SCULL_IOCTQUANTUM h \<noteq> SCULL_IOCSQUANTUM h"
    and "SCULL_IOCGQUANTUM h \<noteq> SCULL_IOCRESET h"
    and "SCULL_IOCGQUANTUM h \<noteq> SCULL_IOCSQUANTUM h"
    and "SCULL_IOCGQUANTUM h \<noteq> SCULL_IOCTQUANTUM h"
    and "SCULL_IOCQQUANTUM h \<noteq> SCULL_IOCRESET h"
    and "SCULL_IOCQQUANTUM h \<noteq> SCULL_IOCSQUANTUM h"
    and "SCULL_IOCQQUANTUM h \<noteq> SCULL_IOCTQUANTUM h"
    and "SCULL_IOCQQUANTUM h \<noteq> SCULL_IOCGQUANTUM h"
    and "SCULL_IOCXQUANTUM h \<noteq> SCULL_IOCRESET h"
    and "SCULL_IOCXQUANTUM h \<noteq> SCULL_IOCSQUANTUM h"
    and "SCULL_IOCXQUANTUM h \<noteq> SCULL_IOCTQUANTUM h"
    and "SCULL_IOCXQUANTUM h \<noteq> SCULL_IOCGQUANTUM h"
    and "SCULL_IOCXQUANTUM h \<noteq> SCULL_IOCQQUANTUM h"
    and "SCULL_IOCHQUANTUM h \<noteq> SCULL_IOCRESET h"
    and "SCULL_IOCHQUANTUM h \<noteq> SCULL_IOCSQUANTUM h"
    and "SCULL_IOCHQUANTUM h \<noteq> SCULL_IOCTQUANTUM h"
    and "SCULL_IOCHQUANTUM h \<noteq> SCULL_IOCGQUANTUM h"
    and "SCULL_IOCHQUANTUM h \<noteq> SCULL_IOCQQUANTUM h"
    and "SCULL_IOCHQUANTUM h \<noteq> SCULL_IOCXQUANTUM h"
    and "SCULL_IOCIQUANTUM h \<noteq> SCULL_IOCRESET h"
    and "SCULL_IOCIQUANTUM h \<noteq> SCULL_IOCSQUANTUM h"
    and "SCULL_IOCIQUANTUM h \<noteq> SCULL_IOCTQUANTUM h"
    and "SCULL_IOCIQUANTUM h \<noteq> SCULL_IOCGQUANTUM h"
    and "SCULL_IOCIQUANTUM h \<noteq> SCULL_IOCQQUANTUM h"
    and "SCULL_IOCIQUANTUM h \<noteq> SCULL_IOCXQUANTUM h"
    and "SCULL_IOCIQUANTUM h \<noteq> SCULL_IOCHQUANTUM h"
  using assms unfolding labels_distinct_def case_labels_def by auto

lemma ioctl_RESET:
  "checks_pass K h um (SCULL_IOCRESET h) arg \<Longrightarrow>
   scull_ioctl K h cur km s um (SCULL_IOCRESET h) arg =
     (0, s\<lparr>scull_quantum := SCULL_QUANTUM h\<rparr>, um)"
  by (simp add: scull_ioctl_def checks_pass_def)

lemma ioctl_TELL:
  "labels_distinct h \<Longrightarrow> checks_pass K h um (SCULL_IOCTQUANTUM h) arg \<Longrightarrow>
   scull_ioctl K h cur km s um (SCULL_IOCTQUANTUM h) arg =
     (0, s\<lparr>scull_quantum := ucast arg\<rparr>, um)"
  by (simp add: scull_ioctl_def checks_pass_def later_label_neq Let_def)

lemma ioctl_QUERY:
  "labels_distinct h \<Longrightarrow> checks_pass K h um (SCULL_IOCQQUANTUM h) arg \<Longrightarrow>
   scull_ioctl K h cur km s um (SCULL_IOCQQUANTUM h) arg = (scast (scull_quantum s), s, um)"
  by (simp add: scull_ioctl_def checks_pass_def later_label_neq Let_def)

lemma ioctl_SHIFT:
  "labels_distinct h \<Longrightarrow> checks_pass K h um (SCULL_IOCHQUANTUM h) arg \<Longrightarrow>
   scull_ioctl K h cur km s um (SCULL_IOCHQUANTUM h) arg =
     (scast (scull_quantum s), s\<lparr>scull_quantum := ucast arg\<rparr>, um)"
  by (simp add: scull_ioctl_def checks_pass_def later_label_neq Let_def)

lemma ioctl_EXCHANGE:
  "labels_distinct h \<Longrightarrow> checks_pass K h um (SCULL_IOCXQUANTUM h) arg \<Longrightarrow>
   scull_ioctl K h cur km s um (SCULL_IOCXQUANTUM h) arg =
     (case load_int K um arg of
        None \<Rightarrow> (scast (- EFAULT), s\<lparr>scull_quantum := 0\<rparr>, um)
      | Some v \<Rightarrow>
          (case store_int K um arg (scull_quantum s) of
             None \<Rightarrow> (scast (- EFAULT), s\<lparr>scull_quantum := v\<rparr>, um)
           | Some um' \<Rightarrow> (0, s\<lparr>scull_quantum := v\<rparr>, um')))"
  by (simp add: scull_ioctl_def checks_pass_def later_label_neq Let_def
      nocheck_get_user_def nocheck_put_user_def neg_EFAULT_nonzero split: option.splits)

lemma ioctl_IDENTIFY:
  "labels_distinct h \<Longrightarrow> checks_pass K h um (SCULL_IOCIQUANTUM h) arg \<Longrightarrow>
   scull_ioctl K h cur km s um (SCULL_IOCIQUANTUM h) arg =
     (let (retval, s', um') = scull_iociquantum K cur km s um arg
      in (scast retval, s', um'))"
  by (simp add: scull_ioctl_def checks_pass_def later_label_neq Let_def)

lemma ioctl_SET:
  "labels_distinct h \<Longrightarrow> checks_pass K h um (SCULL_IOCSQUANTUM h) arg \<Longrightarrow>
   scull_ioctl K h cur km s um (SCULL_IOCSQUANTUM h) arg =
     (case load_int K um arg of
        None \<Rightarrow> (scast (- EFAULT), s\<lparr>scull_quantum := 0\<rparr>, um)
      | Some v \<Rightarrow> (0, s\<lparr>scull_quantum := v\<rparr>, um))"
  by (simp add: scull_ioctl_def checks_pass_def later_label_neq nocheck_get_user_def
      split: option.splits)

lemma ioctl_GET:
  "labels_distinct h \<Longrightarrow> checks_pass K h um (SCULL_IOCGQUANTUM h) arg \<Longrightarrow>
   scull_ioctl K h cur km s um (SCULL_IOCGQUANTUM h) arg =
     (case store_int K um arg (scull_quantum s) of
        None \<Rightarrow> (scast (- EFAULT), s, um)
      | Some um' \<Rightarrow> (0, s, um'))"
  by (simp add: scull_ioctl_def checks_pass_def later_label_neq nocheck_put_user_def
      split: option.splits)

lemma scast_int_long_eq_0: "(scast (r :: c_int) :: c_long) = 0 \<longleftrightarrow> r = 0"
proof
  assume "(scast r :: c_long) = 0"
  then have "sint (scast r :: c_long) = 0" by simp
  moreover have "sint (scast r :: c_long) = sint r"
    by (rule sint_up_scast) (simp add: is_up)
  ultimately have "sint r = sint (0 :: c_int)" by simp
  then show "r = 0" by (rule signed_word_eqI)
qed simp

lemma find_task_iff: "find_task l p t \<longleftrightarrow> (p, t) \<in> set (map node_id l)"
  by (induction l) (auto simp: node_id_def)

lemma ioctl_unmatched:
  "checks_pass K h um cmd arg \<Longrightarrow> cmd \<notin> set (case_labels h) \<Longrightarrow>
   scull_ioctl K h cur km s um cmd arg = (scast (- ENOTTY), s, um)"
  by (simp add: scull_ioctl_def checks_pass_def case_labels_def)

lemma ioctl_result_zero_checks:
  assumes "scull_ioctl K h cur km s um cmd arg = (0, s', um')"
  shows "checks_pass K h um cmd arg"
proof -
  have ty: "IOC_TYPE cmd = SCULL_IOC_MAGIC h"
  proof (rule ccontr)
    assume "IOC_TYPE cmd \<noteq> SCULL_IOC_MAGIC h"
    from ioctl_wrong_type [OF this, of K cur km s um arg] assms
    show False by (simp add: scast_neg_ENOTTY)
  qed
  have nr: "\<not> IOC_NR cmd > SCULL_IOC_MAXNR h"
  proof
    assume "IOC_NR cmd > SCULL_IOC_MAXNR h"
    from ioctl_nr_too_big [OF this, of K cur km s um arg] assms
    show False by (simp add: scast_neg_ENOTTY)
  qed
  have ok: "access_ok K um arg (ucast (IOC_SIZE cmd))"
  proof (rule ccontr)
    assume "\<not> access_ok K um arg (ucast (IOC_SIZE cmd))"
    from ioctl_not_access_ok [OF ty nr this, of cur km s] assms
    show False by (simp add: scast_neg_EFAULT)
  qed
  from ty nr ok show ?thesis by (simp add: checks_pass_def)
qed

subsection \<open>The cleanup loop\<close>

lemma drain_list_eq:
  "drain_list count l out =
     ([], out @ map (\<lambda>i. KERN_INFO_task (count + of_nat i) (node_pid (l ! i)) (node_tgid (l ! i)))
                  [0..<length l])"
proof (induction l arbitrary: count out)
  case Nil
  show ?case by simp
next
  case (Cons n l)
  show ?case
    unfolding drain_list.simps Cons.IH length_Cons map_upt_Suc
    by (simp add: add.assoc)
qed

lemma cleanup_eq:
  "scull_cleanup_module s =
     s\<lparr>task_info_node_list := [],
       klog := klog s @
         map (\<lambda>i. KERN_INFO_task (1 + of_nat i) (node_pid (task_info_node_list s ! i))
                    (node_tgid (task_info_node_list s ! i)))
             [0..<length (task_info_node_list s)]\<rparr>"
  by (simp add: scull_cleanup_module_def drain_list_eq)

subsection \<open>The list after a sequence of calls\<close>

lemma ioctl_other_list:
  "cmd \<noteq> SCULL_IOCIQUANTUM h \<Longrightarrow>
   task_info_node_list (fst (snd (scull_ioctl K h cur km s um cmd arg))) = task_info_node_list s"
  by (simp add: scull_ioctl_def Let_def split_beta)

lemma ioctl_other_klog:
  "cmd \<noteq> SCULL_IOCIQUANTUM h \<Longrightarrow>
   klog (fst (snd (scull_ioctl K h cur km s um cmd arg))) = klog s"
  by (simp add: scull_ioctl_def Let_def split_beta)

lemma ioctl_checks_fail:
  assumes "\<not> checks_pass K h um cmd arg"
  shows "fst (snd (scull_ioctl K h cur km s um cmd arg)) = s"
proof -
  consider "IOC_TYPE cmd \<noteq> SCULL_IOC_MAGIC h"
    | "IOC_NR cmd > SCULL_IOC_MAXNR h"
    | "IOC_TYPE cmd = SCULL_IOC_MAGIC h" "\<not> IOC_NR cmd > SCULL_IOC_MAXNR h"
      "\<not> access_ok K um arg (ucast (IOC_SIZE cmd))"
    using assms unfolding checks_pass_def by blast
  then show ?thesis
  proof cases
    case 1
    then show ?thesis by (simp add: ioctl_wrong_type)
  next
    case 2
    then show ?thesis by (simp add: ioctl_nr_too_big)
  next
    case 3
    then show ?thesis by (simp add: ioctl_not_access_ok)
  qed
qed

lemma iociquantum_list:
  "map node_id (task_info_node_list (fst (snd (scull_iociquantum K cur km s um arg)))) =
     (if (ucast (fst (copy_to_user K um arg (fill_tmp_struct cur))) :: c_int) = 0 \<and> km
      then add_new (map node_id (task_info_node_list s)) (ts_pid cur, ts_tgid cur)
      else map node_id (task_info_node_list s))"
  by (simp add: scull_iociquantum_def Let_def split_beta find_task_iff add_new_def node_id_def)

lemma iociquantum_task_lines:
  "task_lines (klog (fst (snd (scull_iociquantum K cur km s um arg)))) = task_lines (klog s)"
proof -
  have "task_lines (l @ [KERN_ERR_alloc_failed]) = task_lines l" for l
    by (induction l rule: task_lines.induct) simp_all
  then show ?thesis
    by (simp add: scull_iociquantum_def Let_def split_beta)
qed

lemma do_call_list:
  assumes "labels_distinct h"
  shows "map node_id (task_info_node_list (do_call K h s c)) =
     (if can_record K h c then add_new (map node_id (task_info_node_list s)) (caller_id c)
      else map node_id (task_info_node_list s))"
proof (cases "call_cmd c = SCULL_IOCIQUANTUM h")
  case False
  then show ?thesis
    by (simp add: do_call_def can_record_def ioctl_other_list)
next
  case cmd: True
  show ?thesis
  proof (cases "checks_pass K h (call_um c) (call_cmd c) (call_arg c)")
    case False
    then show ?thesis
      by (simp add: do_call_def can_record_def ioctl_checks_fail)
  next
    case True
    then have cp: "checks_pass K h (call_um c) (SCULL_IOCIQUANTUM h) (call_arg c)"
      by (simp add: cmd)
    show ?thesis
      using True
      by (simp add: do_call_def cmd ioctl_IDENTIFY [OF assms cp] split_beta iociquantum_list
          can_record_def caller_id_def)
  qed
qed

lemma do_call_task_lines:
  assumes "labels_distinct h"
  shows "task_lines (klog (do_call K h s c)) = task_lines (klog s)"
proof (cases "call_cmd c = SCULL_IOCIQUANTUM h")
  case False
  then show ?thesis
    by (simp add: do_call_def ioctl_other_klog)
next
  case cmd: True
  show ?thesis
  proof (cases "checks_pass K h (call_um c) (call_cmd c) (call_arg c)")
    case False
    then show ?thesis
      by (simp add: do_call_def ioctl_checks_fail)
  next
    case True
    then have cp: "checks_pass K h (call_um c) (SCULL_IOCIQUANTUM h) (call_arg c)"
      by (simp add: cmd)
    show ?thesis
      by (simp add: do_call_def cmd ioctl_IDENTIFY [OF assms cp] split_beta iociquantum_task_lines)
  qed
qed

lemma run_calls_list:
  assumes "labels_distinct h"
  shows "map node_id (task_info_node_list (run_calls K h s cs)) =
     foldl add_new (map node_id (task_info_node_list s))
       (map caller_id (filter (can_record K h) cs))"
  unfolding run_calls_def
  by (induction cs arbitrary: s) (simp_all add: do_call_list [OF assms])

lemma run_calls_task_lines:
  assumes "labels_distinct h"
  shows "task_lines (klog (run_calls K h s cs)) = task_lines (klog s)"
  unfolding run_calls_def
  by (induction cs arbitrary: s) (simp_all add: do_call_task_lines [OF assms])

lemma foldl_add_new:
  "foldl add_new acc xs = acc @ first_occurrences (filter (\<lambda>y. y \<notin> set acc) xs)"
proof (induction xs arbitrary: acc)
  case Nil
  show ?case by simp
next
  case (Cons x xs)
  show ?case
  proof (cases "x \<in> set acc")
    case True
    then have "add_new acc x = acc" by (simp add: add_new_def)
    with True show ?thesis by (simp add: Cons.IH)
  next
    case False
    then have a: "add_new acc x = acc @ [x]" by (simp add: add_new_def)
    have "filter (\<lambda>y. y \<notin> set (acc @ [x])) xs = filter (\<lambda>y. y \<noteq> x) (filter (\<lambda>y. y \<notin> set acc) xs)"
      by (induction xs) auto
    with False a show ?thesis by (simp add: Cons.IH)
  qed
qed

lemma set_first_occurrences: "set (first_occurrences xs) = set xs"
  by (induction xs rule: first_occurrences.induct) auto

lemma distinct_first_occurrences: "distinct (first_occurrences xs)"
  by (induction xs rule: first_occurrences.induct) (auto simp: set_first_occurrences)

lemma task_lines_append: "task_lines (a @ b) = task_lines a @ task_lines b"
  by (induction a rule: task_lines.induct) simp_all

lemma teardown_report_eq:
  "teardown_report s = task_lines (klog s) @ numbered (map node_id (task_info_node_list s))"
proof -
  have a: "task_lines (map (\<lambda>i. KERN_INFO_task (f i) (node_pid (l ! i)) (node_tgid (l ! i))) is) =
        map (\<lambda>i. (f i, node_pid (l ! i), node_tgid (l ! i))) is" for f l "is"
    by (induction "is") simp_all
  have b: "numbered (map node_id l) =
        map (\<lambda>i. (1 + of_nat i, node_pid (l ! i), node_tgid (l ! i))) [0..<length l]" for l
    unfolding numbered_def by (rule map_cong) (simp_all add: node_id_def)
  show ?thesis
    by (simp add: teardown_report_def cleanup_eq task_lines_append a b)
qed

lemma sint_number:
  assumes "i < n" and "n < 2 ^ 31"
  shows "sint (1 + of_nat i :: c_int) = int i + 1"
proof -
  have "(1 + of_nat i :: c_int) = of_nat (Suc i)" by simp
  moreover have "sint (of_nat (Suc i) :: c_int) = int (Suc i)"
    using assms by (simp only: signed_of_nat) (simp add: signed_take_bit_int_eq_self)
  ultimately show ?thesis by simp
qed

lemma numbered_sint:
  assumes "length ids < 2 ^ 31"
  shows "map (sint \<circ> fst) (numbered ids) = map int [1..<Suc (length ids)]"
proof -
  have "map (sint \<circ> fst) (numbered ids) = map (\<lambda>i. int i + 1) [0..<length ids]"
    unfolding numbered_def map_map
    by (rule map_cong) (simp_all add: sint_number [OF _ assms])
  also have "\<dots> = map int (map Suc [0..<length ids])"
    by (simp add: comp_def)
  also have "map Suc [0..<length ids] = [1..<Suc (length ids)]"
    by (simp add: map_Suc_upt)
  finally show ?thesis .
qed

lemma registry_after_run:
  assumes "labels_distinct h" and "task_info_node_list s0 = []"
  shows "map node_id (task_info_node_list (run_calls K h s0 cs)) =
           first_occurrences (map caller_id (filter (can_record K h) cs))"
  by (simp add: run_calls_list [OF assms(1)] assms(2) foldl_add_new)

lemma report_after_run:
  assumes "labels_distinct h" and "task_info_node_list s0 = []" and "task_lines (klog s0) = []"
  shows "teardown_report (run_calls K h s0 cs) =
           numbered (first_occurrences (map caller_id (filter (can_record K h) cs)))"
  by (simp add: teardown_report_eq run_calls_task_lines [OF assms(1)] assms(3)
      registry_after_run [OF assms(1,2)])

lemma map_snd_numbered: "map snd (numbered ids) = ids"
  unfolding numbered_def by (simp add: comp_def map_nth)

subsection \<open>Truncation of an unsigned long to an int\<close>

lemma sint_ucast_long:
  "sint (ucast (a :: c_ulong) :: c_int) =
     (let m = uint a mod 2 ^ 32 in if m < 2 ^ 31 then m else m - 2 ^ 32)"
proof -
  define m where "m = uint a mod 2 ^ 32"
  have m: "0 \<le> m" "m < 2 ^ 32" by (simp_all add: m_def)
  have "sint (ucast a :: c_int) = signed_take_bit 31 (uint a)"
    by (simp add: signed_ucast_eq)
  also have "\<dots> = (uint a + 2 ^ 31) mod 2 ^ 32 - 2 ^ 31"
    by (simp add: signed_take_bit_eq_take_bit_shift take_bit_eq_mod)
  also have "(uint a + 2 ^ 31) mod 2 ^ 32 = (m + 2 ^ 31) mod 2 ^ 32"
    unfolding m_def by (simp add: mod_add_left_eq)
  also have "(m + 2 ^ 31) mod 2 ^ 32 = (if m < 2 ^ 31 then m + 2 ^ 31 else m - 2 ^ 31)"
  proof (cases "m < 2 ^ 31")
    case True
    with m show ?thesis by (simp add: mod_pos_pos_trivial)
  next
    case False
    have "m + 2 ^ 31 = m - 2 ^ 31 + (2 ^ 32 :: int)" by simp
    then have "(m + 2 ^ 31) mod 2 ^ 32 = (m - 2 ^ 31 + 2 ^ 32) mod 2 ^ 32" by (simp only:)
    also have "\<dots> = (m - 2 ^ 31) mod 2 ^ 32" by (simp only: mod_add_self2)
    also have "\<dots> = m - 2 ^ 31" using False m by (simp add: mod_pos_pos_trivial)
    finally show ?thesis using False by simp
  qed
  finally show ?thesis by (simp add: m_def Let_def)
qed

subsection \<open>Evaluation on the example header and memory\<close>

lemmas demo_defs = book_scull_h_def um_uaccess_def um_access_ok_def um_load_int_def um_store_int_def
  um_copy_to_user_def demo_mem_def loaded_state_def task_of_def IOC_TYPE_def IOC_NR_def IOC_SIZE_def
  EFAULT_def ENOTTY_def

lemma book_labels_distinct: "labels_distinct book_scull_h"
  by (simp add: labels_distinct_def case_labels_def book_scull_h_def)

lemma can_record_identify_call:
  "can_record um_uaccess book_scull_h (identify_call p t km) = km"
  by (simp add: can_record_def identify_call_def checks_pass_def demo_defs)

lemma caller_id_identify_call: "caller_id (identify_call p t km) = (p, t)"
  by (simp add: caller_id_def identify_call_def task_of_def)

lemma numbered_three: "numbered [a, b, c] = [(1, a), (2, b), (3, c)]"
  by (simp add: numbered_def upt_rec)

section \<open>The claims\<close>

subsection \<open>C1: an inaccessible argument region\<close>

text \<open>
  C1, as amended. For the commands that pass their argument by reference, an
  inaccessible region has these effects and no others.
  \<^item> When \<open>access_ok\<close> rejects the argument for the size encoded in the command word
    (this part holds for every command word that passes the type and number checks),
    the dispatcher returns \<open>-EFAULT\<close> and changes nothing: the quantum, the list, the
    log and the caller's memory are as before.
  \<^item> A \<open>SCULL_IOCGQUANTUM\<close> whose store faults returns \<open>-EFAULT\<close> and changes nothing.
  \<^item> A \<open>SCULL_IOCSQUANTUM\<close> whose load faults, and a \<open>SCULL_IOCXQUANTUM\<close> whose load or
    whose store faults, return \<open>-EFAULT\<close> and leave the list, the log and the caller's
    memory as before; only the quantum is overwritten, with the value read, or with 0
    when the load faulted.
  \<^item> A \<open>SCULL_IOCIQUANTUM\<close> whose \<open>copy_to_user\<close> is incomplete returns a value other than
    0 and leaves the quantum, the list and the log as before.
\<close>

theorem C1_inaccessible_region:
  assumes "labels_distinct h"
  shows
    "(IOC_TYPE cmd = SCULL_IOC_MAGIC h \<and> \<not> IOC_NR cmd > SCULL_IOC_MAXNR h \<and>
      \<not> access_ok K um arg (ucast (IOC_SIZE cmd)) \<longrightarrow>
        scull_ioctl K h cur km s um cmd arg = (scast (- EFAULT), s, um)) \<and>
     (checks_pass K h um (SCULL_IOCGQUANTUM h) arg \<and>
      store_int K um arg (scull_quantum s) = None \<longrightarrow>
        scull_ioctl K h cur km s um (SCULL_IOCGQUANTUM h) arg = (scast (- EFAULT), s, um)) \<and>
     (checks_pass K h um (SCULL_IOCSQUANTUM h) arg \<and> load_int K um arg = None \<longrightarrow>
        scull_ioctl K h cur km s um (SCULL_IOCSQUANTUM h) arg =
          (scast (- EFAULT), s\<lparr>scull_quantum := 0\<rparr>, um)) \<and>
     (checks_pass K h um (SCULL_IOCXQUANTUM h) arg \<and> load_int K um arg = None \<longrightarrow>
        scull_ioctl K h cur km s um (SCULL_IOCXQUANTUM h) arg =
          (scast (- EFAULT), s\<lparr>scull_quantum := 0\<rparr>, um)) \<and>
     (checks_pass K h um (SCULL_IOCXQUANTUM h) arg \<and> load_int K um arg = Some v \<and>
      store_int K um arg (scull_quantum s) = None \<longrightarrow>
        scull_ioctl K h cur km s um (SCULL_IOCXQUANTUM h) arg =
          (scast (- EFAULT), s\<lparr>scull_quantum := v\<rparr>, um)) \<and>
     (checks_pass K h um (SCULL_IOCIQUANTUM h) arg \<and>
      (ucast (fst (copy_to_user K um arg (fill_tmp_struct cur))) :: c_int) \<noteq> 0 \<longrightarrow>
        fst (snd (scull_ioctl K h cur km s um (SCULL_IOCIQUANTUM h) arg)) = s \<and>
        fst (scull_ioctl K h cur km s um (SCULL_IOCIQUANTUM h) arg) \<noteq> 0)"
proof (intro conjI impI)
  assume "IOC_TYPE cmd = SCULL_IOC_MAGIC h \<and> \<not> IOC_NR cmd > SCULL_IOC_MAXNR h \<and>
      \<not> access_ok K um arg (ucast (IOC_SIZE cmd))"
  then show "scull_ioctl K h cur km s um cmd arg = (scast (- EFAULT), s, um)"
    by (simp add: ioctl_not_access_ok)
next
  assume "checks_pass K h um (SCULL_IOCGQUANTUM h) arg \<and>
      store_int K um arg (scull_quantum s) = None"
  then show "scull_ioctl K h cur km s um (SCULL_IOCGQUANTUM h) arg = (scast (- EFAULT), s, um)"
    by (simp add: ioctl_GET [OF assms])
next
  assume "checks_pass K h um (SCULL_IOCSQUANTUM h) arg \<and> load_int K um arg = None"
  then show "scull_ioctl K h cur km s um (SCULL_IOCSQUANTUM h) arg =
          (scast (- EFAULT), s\<lparr>scull_quantum := 0\<rparr>, um)"
    by (simp add: ioctl_SET [OF assms])
next
  assume "checks_pass K h um (SCULL_IOCXQUANTUM h) arg \<and> load_int K um arg = None"
  then show "scull_ioctl K h cur km s um (SCULL_IOCXQUANTUM h) arg =
          (scast (- EFAULT), s\<lparr>scull_quantum := 0\<rparr>, um)"
    by (simp add: ioctl_EXCHANGE [OF assms])
next
  assume "checks_pass K h um (SCULL_IOCXQUANTUM h) arg \<and> load_int K um arg = Some v \<and>
      store_int K um arg (scull_quantum s) = None"
  then show "scull_ioctl K h cur km s um (SCULL_IOCXQUANTUM h) arg =
          (scast (- EFAULT), s\<lparr>scull_quantum := v\<rparr>, um)"
    by (simp add: ioctl_EXCHANGE [OF assms])
next
  assume a: "checks_pass K h um (SCULL_IOCIQUANTUM h) arg \<and>
      (ucast (fst (copy_to_user K um arg (fill_tmp_struct cur))) :: c_int) \<noteq> 0"
  then show "fst (snd (scull_ioctl K h cur km s um (SCULL_IOCIQUANTUM h) arg)) = s"
    by (simp add: ioctl_IDENTIFY [OF assms] scull_iociquantum_def split_beta Let_def)
  from a show "fst (scull_ioctl K h cur km s um (SCULL_IOCIQUANTUM h) arg) \<noteq> 0"
    by (simp add: ioctl_IDENTIFY [OF assms] scull_iociquantum_def split_beta Let_def
        scast_int_long_eq_0)
qed

theorem C1_witness:
  "labels_distinct book_scull_h \<and>
   IOC_TYPE (SCULL_IOCXQUANTUM book_scull_h) = SCULL_IOC_MAGIC book_scull_h \<and>
   \<not> IOC_NR (SCULL_IOCXQUANTUM book_scull_h) > SCULL_IOC_MAXNR book_scull_h \<and>
   access_ok um_uaccess demo_mem 0x7FFFFFFFEFFD 0 \<and>
   \<not> access_ok um_uaccess demo_mem 0x7FFFFFFFEFFD
        (ucast (IOC_SIZE (SCULL_IOCXQUANTUM book_scull_h))) \<and>
   scull_ioctl um_uaccess book_scull_h (task_of 10 10) True (loaded_state book_scull_h) demo_mem
     (SCULL_IOCXQUANTUM book_scull_h) 0x7FFFFFFFEFFD =
     (scast (- EFAULT), loaded_state book_scull_h, demo_mem) \<and>
   checks_pass um_uaccess book_scull_h demo_mem (SCULL_IOCGQUANTUM book_scull_h) 0x3000 \<and>
   store_int um_uaccess demo_mem 0x3000 (scull_quantum (loaded_state book_scull_h)) = None \<and>
   scull_ioctl um_uaccess book_scull_h (task_of 10 10) True (loaded_state book_scull_h) demo_mem
     (SCULL_IOCGQUANTUM book_scull_h) 0x3000 =
     (scast (- EFAULT), loaded_state book_scull_h, demo_mem) \<and>
   checks_pass um_uaccess book_scull_h demo_mem (SCULL_IOCSQUANTUM book_scull_h) 0x4000 \<and>
   load_int um_uaccess demo_mem 0x4000 = None \<and>
   scull_ioctl um_uaccess book_scull_h (task_of 10 10) True (loaded_state book_scull_h) demo_mem
     (SCULL_IOCSQUANTUM book_scull_h) 0x4000 =
     (scast (- EFAULT), (loaded_state book_scull_h)\<lparr>scull_quantum := 0\<rparr>, demo_mem) \<and>
   checks_pass um_uaccess book_scull_h demo_mem (SCULL_IOCXQUANTUM book_scull_h) 0x4000 \<and>
   scull_ioctl um_uaccess book_scull_h (task_of 10 10) True (loaded_state book_scull_h) demo_mem
     (SCULL_IOCXQUANTUM book_scull_h) 0x4000 =
     (scast (- EFAULT), (loaded_state book_scull_h)\<lparr>scull_quantum := 0\<rparr>, demo_mem) \<and>
   checks_pass um_uaccess book_scull_h demo_mem (SCULL_IOCXQUANTUM book_scull_h) 0x3000 \<and>
   load_int um_uaccess demo_mem 0x3000 = Some 7 \<and>
   scull_ioctl um_uaccess book_scull_h (task_of 10 10) True (loaded_state book_scull_h) demo_mem
     (SCULL_IOCXQUANTUM book_scull_h) 0x3000 =
     (scast (- EFAULT), (loaded_state book_scull_h)\<lparr>scull_quantum := 7\<rparr>, demo_mem) \<and>
   checks_pass um_uaccess book_scull_h demo_mem (SCULL_IOCIQUANTUM book_scull_h) 0x4000 \<and>
   (ucast (fst (copy_to_user um_uaccess demo_mem 0x4000 (fill_tmp_struct (task_of 10 10))))
      :: c_int) \<noteq> 0 \<and>
   fst (snd (scull_ioctl um_uaccess book_scull_h (task_of 10 10) True (loaded_state book_scull_h)
     demo_mem (SCULL_IOCIQUANTUM book_scull_h) 0x4000)) = loaded_state book_scull_h \<and>
   fst (scull_ioctl um_uaccess book_scull_h (task_of 10 10) True (loaded_state book_scull_h)
     demo_mem (SCULL_IOCIQUANTUM book_scull_h) 0x4000) \<noteq> 0"
proof -
  let ?K = um_uaccess and ?h = book_scull_h and ?s = "loaded_state book_scull_h"
  let ?cur = "task_of 10 10"
  have a: "labels_distinct ?h" by (rule book_labels_distinct)
  have b1: "IOC_TYPE (SCULL_IOCXQUANTUM ?h) = SCULL_IOC_MAGIC ?h"
    by (simp add: demo_defs)
  have b2: "\<not> IOC_NR (SCULL_IOCXQUANTUM ?h) > SCULL_IOC_MAXNR ?h"
    by (simp add: demo_defs)
  have b3: "access_ok ?K demo_mem 0x7FFFFFFFEFFD 0"
    by (simp add: demo_defs)
  have b4: "\<not> access_ok ?K demo_mem 0x7FFFFFFFEFFD (ucast (IOC_SIZE (SCULL_IOCXQUANTUM ?h)))"
    by (simp add: demo_defs)
  have b5: "scull_ioctl ?K ?h ?cur True ?s demo_mem (SCULL_IOCXQUANTUM ?h) 0x7FFFFFFFEFFD =
      (scast (- EFAULT), ?s, demo_mem)"
    using C1_inaccessible_region [OF a, where K = ?K and um = demo_mem and arg = "0x7FFFFFFFEFFD"
        and cmd = "SCULL_IOCXQUANTUM ?h" and cur = ?cur and km = True and s = ?s]
      b1 b2 b4 by blast
  have c1: "checks_pass ?K ?h demo_mem (SCULL_IOCGQUANTUM ?h) 0x3000"
    by (simp add: checks_pass_def demo_defs)
  have c2: "store_int ?K demo_mem 0x3000 (scull_quantum ?s) = None"
    by (simp add: demo_defs)
  have c3: "scull_ioctl ?K ?h ?cur True ?s demo_mem (SCULL_IOCGQUANTUM ?h) 0x3000 =
      (scast (- EFAULT), ?s, demo_mem)"
    using C1_inaccessible_region [OF a, where K = ?K and um = demo_mem and arg = "0x3000"
        and cur = ?cur and km = True and s = ?s]
      c1 c2 by blast
  have d1: "checks_pass ?K ?h demo_mem (SCULL_IOCSQUANTUM ?h) 0x4000"
    by (simp add: checks_pass_def demo_defs)
  have d2: "load_int ?K demo_mem 0x4000 = None"
    by (simp add: demo_defs)
  have d3: "scull_ioctl ?K ?h ?cur True ?s demo_mem (SCULL_IOCSQUANTUM ?h) 0x4000 =
      (scast (- EFAULT), ?s\<lparr>scull_quantum := 0\<rparr>, demo_mem)"
    using C1_inaccessible_region [OF a, where K = ?K and um = demo_mem and arg = "0x4000"
        and cur = ?cur and km = True and s = ?s]
      d1 d2 by blast
  have e1: "checks_pass ?K ?h demo_mem (SCULL_IOCXQUANTUM ?h) 0x4000"
    by (simp add: checks_pass_def demo_defs)
  have e3: "scull_ioctl ?K ?h ?cur True ?s demo_mem (SCULL_IOCXQUANTUM ?h) 0x4000 =
      (scast (- EFAULT), ?s\<lparr>scull_quantum := 0\<rparr>, demo_mem)"
    using C1_inaccessible_region [OF a, where K = ?K and um = demo_mem and arg = "0x4000"
        and cur = ?cur and km = True and s = ?s]
      e1 d2 by blast
  have f1: "checks_pass ?K ?h demo_mem (SCULL_IOCXQUANTUM ?h) 0x3000"
    by (simp add: checks_pass_def demo_defs)
  have f2: "load_int ?K demo_mem 0x3000 = Some 7"
    by (simp add: demo_defs)
  have f3: "scull_ioctl ?K ?h ?cur True ?s demo_mem (SCULL_IOCXQUANTUM ?h) 0x3000 =
      (scast (- EFAULT), ?s\<lparr>scull_quantum := 7\<rparr>, demo_mem)"
    using C1_inaccessible_region [OF a, where K = ?K and um = demo_mem and arg = "0x3000"
        and cur = ?cur and km = True and s = ?s and v = 7]
      f1 f2 c2 by blast
  have g1: "checks_pass ?K ?h demo_mem (SCULL_IOCIQUANTUM ?h) 0x4000"
    by (simp add: checks_pass_def demo_defs)
  have g2: "(ucast (fst (copy_to_user ?K demo_mem 0x4000 (fill_tmp_struct ?cur))) :: c_int) \<noteq> 0"
    by (simp add: demo_defs)
  have g: "fst (snd (scull_ioctl ?K ?h ?cur True ?s demo_mem (SCULL_IOCIQUANTUM ?h) 0x4000)) = ?s \<and>
      fst (scull_ioctl ?K ?h ?cur True ?s demo_mem (SCULL_IOCIQUANTUM ?h) 0x4000) \<noteq> 0"
    using C1_inaccessible_region [OF a, where K = ?K and um = demo_mem and arg = "0x4000"
        and cur = ?cur and km = True and s = ?s]
      g1 g2 by blast
  note g3 = g [THEN conjunct1] and g4 = g [THEN conjunct2]
  show ?thesis
    by (intro conjI a b1 b2 b3 b4 b5 c1 c2 c3 d1 d2 d3 e1 e3 f1 f2 f3 g1 g2 g3 g4)
qed

text \<open>
  C1 as stated fails: a region that is readable but not writable is not accessible for
  an exchange, and the exchange returns \<open>-EFAULT\<close>, yet it has already replaced the
  quantum 4000 by the 7 it read.
\<close>

theorem C1_counterexample:
  "store_int um_uaccess demo_mem 0x3000 4000 = None \<and>
   scull_quantum (loaded_state book_scull_h) = 4000 \<and>
   scull_ioctl um_uaccess book_scull_h (task_of 10 10) True (loaded_state book_scull_h) demo_mem
     (SCULL_IOCXQUANTUM book_scull_h) 0x3000 =
     (scast (- EFAULT), (loaded_state book_scull_h)\<lparr>scull_quantum := 7\<rparr>, demo_mem)"
  by (simp add: scull_ioctl_def nocheck_get_user_def nocheck_put_user_def demo_defs)

subsection \<open>C2: no identity twice\<close>

text \<open>
  C2, as amended. After any sequence of calls on a freshly loaded module, whatever the
  order in which they took the mutex, no identity is reported twice, and the identities
  reported are exactly those of the calls that could record: \<open>SCULL_IOCIQUANTUM\<close> calls
  that passed the checks, copied the whole structure and whose allocation succeeded. The
  number of entries is the number of distinct such identities. In particular, when
  every call is of this kind the report has one entry per distinct identity used.
\<close>

theorem C2_registry_unique:
  assumes "labels_distinct h" and "task_info_node_list s0 = []" and "task_lines (klog s0) = []"
  shows "distinct (map snd (teardown_report (run_calls K h s0 cs))) \<and>
         set (map snd (teardown_report (run_calls K h s0 cs))) =
           caller_id ` {c \<in> set cs. can_record K h c} \<and>
         length (teardown_report (run_calls K h s0 cs)) =
           card (caller_id ` {c \<in> set cs. can_record K h c})"
proof -
  let ?ids = "first_occurrences (map caller_id (filter (can_record K h) cs))"
  have r: "map snd (teardown_report (run_calls K h s0 cs)) = ?ids"
    by (simp add: report_after_run [OF assms] map_snd_numbered)
  have d: "distinct ?ids" by (rule distinct_first_occurrences)
  have s: "set ?ids = caller_id ` {c \<in> set cs. can_record K h c}"
    by (simp add: set_first_occurrences)
  have "length (teardown_report (run_calls K h s0 cs)) = length ?ids"
    using r by (metis length_map)
  also have "\<dots> = card (set ?ids)"
    using d by (simp add: distinct_card)
  finally show ?thesis using r d s by simp
qed

theorem C2_witness:
  "labels_distinct book_scull_h \<and>
   task_info_node_list (loaded_state book_scull_h) = [] \<and>
   task_lines (klog (loaded_state book_scull_h)) = [] \<and>
   distinct (map snd (teardown_report (run_calls um_uaccess book_scull_h (loaded_state book_scull_h)
     [identify_call 10 10 True, identify_call 11 11 True, identify_call 10 10 True,
      identify_call 12 12 True]))) \<and>
   set (map snd (teardown_report (run_calls um_uaccess book_scull_h (loaded_state book_scull_h)
     [identify_call 10 10 True, identify_call 11 11 True, identify_call 10 10 True,
      identify_call 12 12 True]))) = {(10, 10), (11, 11), (12, 12)} \<and>
   length (teardown_report (run_calls um_uaccess book_scull_h (loaded_state book_scull_h)
     [identify_call 10 10 True, identify_call 11 11 True, identify_call 10 10 True,
      identify_call 12 12 True])) = 3"
proof -
  let ?cs = "[identify_call 10 10 True, identify_call 11 11 True, identify_call 10 10 True,
      identify_call 12 12 True]"
  have a: "labels_distinct book_scull_h" by (rule book_labels_distinct)
  have b: "task_info_node_list (loaded_state book_scull_h) = []" by (simp add: loaded_state_def)
  have c: "task_lines (klog (loaded_state book_scull_h)) = []" by (simp add: loaded_state_def)
  have "caller_id ` {c \<in> set ?cs. can_record um_uaccess book_scull_h c} =
          set (map caller_id (filter (can_record um_uaccess book_scull_h) ?cs))"
    by (simp only: set_map set_filter)
  also have "map caller_id (filter (can_record um_uaccess book_scull_h) ?cs) =
          [(10, 10), (11, 11), (10, 10), (12, 12)]"
    by (simp add: can_record_identify_call caller_id_identify_call)
  also have "set [(10, 10), (11, 11), (10, 10), (12, 12) :: c_int \<times> c_int] =
          {(10, 10), (11, 11), (12, 12)}"
    by auto
  finally have i: "caller_id ` {c \<in> set ?cs. can_record um_uaccess book_scull_h c} =
             {(10, 10), (11, 11), (12, 12)}" .
  have k: "card {(10, 10), (11, 11), (12, 12) :: c_int \<times> c_int} = 3"
    by simp
  show ?thesis
    using C2_registry_unique [OF a b c, of um_uaccess ?cs] a b c unfolding i k by simp
qed

text \<open>
  C2 as stated fails: a single \<open>SCULL_IOCIQUANTUM\<close> call by the task (10, 10) whose
  allocation fails returns 0, and the report has no entry for the one identity used.
\<close>

theorem C2_counterexample:
  "call_cmd (identify_call 10 10 False) = SCULL_IOCIQUANTUM book_scull_h \<and>
   caller_id (identify_call 10 10 False) = (10, 10) \<and>
   fst (scull_ioctl um_uaccess book_scull_h (task_of 10 10) False (loaded_state book_scull_h)
          demo_mem (SCULL_IOCIQUANTUM book_scull_h) 0x2000) = 0 \<and>
   teardown_report (run_calls um_uaccess book_scull_h (loaded_state book_scull_h)
     [identify_call 10 10 False]) = []"
  by (simp add: identify_call_def caller_id_def run_calls_def do_call_def scull_ioctl_def
      scull_iociquantum_def fill_tmp_struct_def teardown_report_def scull_cleanup_module_def
      demo_defs)

subsection \<open>C3: the order and the numbers of the report\<close>

text \<open>
  C3. After any sequence of calls on a freshly loaded module, the report lists the
  identities of the calls that could record in the order of their first occurrence in
  the sequence (a later call by an identity already listed changes nothing), and the
  entry at position \<open>i\<close>, counted from 0, carries the number \<open>1 + i\<close> in the type of
  \<open>count\<close>; read as integers the numbers are 1, 2, ..., as long as there are fewer than
  \<open>2^31\<close> entries.
\<close>

theorem C3_report_order:
  assumes "labels_distinct h" and "task_info_node_list s0 = []" and "task_lines (klog s0) = []"
  shows "teardown_report (run_calls K h s0 cs) =
           numbered (first_occurrences (map caller_id (filter (can_record K h) cs))) \<and>
         (length (teardown_report (run_calls K h s0 cs)) < 2 ^ 31 \<longrightarrow>
          map (sint \<circ> fst) (teardown_report (run_calls K h s0 cs)) =
            map int [1..<Suc (length (teardown_report (run_calls K h s0 cs)))])"
proof -
  let ?ids = "first_occurrences (map caller_id (filter (can_record K h) cs))"
  have r: "teardown_report (run_calls K h s0 cs) = numbered ?ids"
    using assms by (rule report_after_run)
  have l: "length (numbered ?ids) = length ?ids"
    by (simp add: numbered_def)
  show ?thesis
    unfolding r l using numbered_sint [of ?ids] by simp
qed

theorem C3_witness:
  "labels_distinct book_scull_h \<and>
   task_info_node_list (loaded_state book_scull_h) = [] \<and>
   task_lines (klog (loaded_state book_scull_h)) = [] \<and>
   teardown_report (run_calls um_uaccess book_scull_h (loaded_state book_scull_h)
     [identify_call 10 10 True, identify_call 11 11 True, identify_call 10 10 True,
      identify_call 12 12 True]) = [(1, 10, 10), (2, 11, 11), (3, 12, 12)] \<and>
   map (sint \<circ> fst) (teardown_report (run_calls um_uaccess book_scull_h
     (loaded_state book_scull_h)
     [identify_call 10 10 True, identify_call 11 11 True, identify_call 10 10 True,
      identify_call 12 12 True])) = [1, 2, 3]"
proof -
  let ?cs = "[identify_call 10 10 True, identify_call 11 11 True, identify_call 10 10 True,
      identify_call 12 12 True]"
  have a: "labels_distinct book_scull_h" by (rule book_labels_distinct)
  have b: "task_info_node_list (loaded_state book_scull_h) = []" by (simp add: loaded_state_def)
  have c: "task_lines (klog (loaded_state book_scull_h)) = []" by (simp add: loaded_state_def)
  note t = C3_report_order [OF a b c, of um_uaccess ?cs]
  have d: "teardown_report (run_calls um_uaccess book_scull_h (loaded_state book_scull_h) ?cs) =
      [(1, 10, 10), (2, 11, 11), (3, 12, 12)]"
    using t [THEN conjunct1]
    by (simp add: can_record_identify_call caller_id_identify_call numbered_three)
  have "length (teardown_report (run_calls um_uaccess book_scull_h (loaded_state book_scull_h) ?cs))
      < 2 ^ 31"
    unfolding d by simp
  with t have "map (sint \<circ> fst)
      (teardown_report (run_calls um_uaccess book_scull_h (loaded_state book_scull_h) ?cs)) =
      map int [1..<Suc (length
        (teardown_report (run_calls um_uaccess book_scull_h (loaded_state book_scull_h) ?cs)))]"
    by blast
  also have "\<dots> = [1, 2, 3]"
    unfolding d by (simp add: upt_rec)
  finally have e: "map (sint \<circ> fst)
      (teardown_report (run_calls um_uaccess book_scull_h (loaded_state book_scull_h) ?cs)) =
      [1, 2, 3]" .
  show ?thesis by (intro conjI a b c d e)
qed

subsection \<open>C4: exchange\<close>

text \<open>
  C4. A \<open>SCULL_IOCXQUANTUM\<close> call that returns 0, made with an argument at which the
  \<open>int\<close> \<open>v\<close> is read, leaves the state with the quantum set to \<open>v\<close> and nothing else
  changed, and the caller's memory is the one that the store of the previous quantum at
  the argument produces.
\<close>

theorem C4_exchange:
  assumes "labels_distinct h"
    and "load_int K um arg = Some v"
    and "scull_ioctl K h cur km s um (SCULL_IOCXQUANTUM h) arg = (0, s', um')"
  shows "s' = s\<lparr>scull_quantum := v\<rparr> \<and> store_int K um arg (scull_quantum s) = Some um'"
proof -
  have cp: "checks_pass K h um (SCULL_IOCXQUANTUM h) arg"
    using assms(3) by (rule ioctl_result_zero_checks)
  have "scull_ioctl K h cur km s um (SCULL_IOCXQUANTUM h) arg =
          (case store_int K um arg (scull_quantum s) of
              None \<Rightarrow> (scast (- EFAULT), s\<lparr>scull_quantum := v\<rparr>, um)
            | Some m \<Rightarrow> (0, s\<lparr>scull_quantum := v\<rparr>, m))"
    using ioctl_EXCHANGE [OF assms(1) cp, of cur km s] by (simp add: assms(2))
  then have e: "(0 :: c_long, s', um') =
          (case store_int K um arg (scull_quantum s) of
              None \<Rightarrow> (scast (- EFAULT), s\<lparr>scull_quantum := v\<rparr>, um)
            | Some m \<Rightarrow> (0, s\<lparr>scull_quantum := v\<rparr>, m))"
    unfolding assms(3) .
  show ?thesis
  proof (cases "store_int K um arg (scull_quantum s)")
    case None
    with e have "(scast (- EFAULT) :: c_long) = 0" by simp
    then show ?thesis by (simp add: scast_neg_EFAULT)
  next
    case (Some m)
    with e show ?thesis by simp
  qed
qed

theorem C4_witness:
  "labels_distinct book_scull_h \<and>
   load_int um_uaccess demo_mem 0x1000 = Some 1 \<and>
   scull_ioctl um_uaccess book_scull_h (task_of 10 10) True
     ((loaded_state book_scull_h)\<lparr>scull_quantum := 8192\<rparr>) demo_mem
     (SCULL_IOCXQUANTUM book_scull_h) 0x1000 =
     (0, (loaded_state book_scull_h)\<lparr>scull_quantum := 1\<rparr>,
      demo_mem\<lparr>int_vars :=
        [(0x1000, \<lparr>var_readable = True, var_writable = True, var_value = 8192\<rparr>),
         (0x3000, \<lparr>var_readable = True, var_writable = False, var_value = 7\<rparr>)]\<rparr>) \<and>
   store_int um_uaccess demo_mem 0x1000
       (scull_quantum ((loaded_state book_scull_h)\<lparr>scull_quantum := 8192\<rparr>)) =
     Some (demo_mem\<lparr>int_vars :=
        [(0x1000, \<lparr>var_readable = True, var_writable = True, var_value = 8192\<rparr>),
         (0x3000, \<lparr>var_readable = True, var_writable = False, var_value = 7\<rparr>)]\<rparr>)"
proof -
  have a: "labels_distinct book_scull_h" by (rule book_labels_distinct)
  have b: "load_int um_uaccess demo_mem 0x1000 = Some 1" by (simp add: demo_defs)
  have c: "scull_ioctl um_uaccess book_scull_h (task_of 10 10) True
     ((loaded_state book_scull_h)\<lparr>scull_quantum := 8192\<rparr>) demo_mem
     (SCULL_IOCXQUANTUM book_scull_h) 0x1000 =
     (0, (loaded_state book_scull_h)\<lparr>scull_quantum := 1\<rparr>,
      demo_mem\<lparr>int_vars :=
        [(0x1000, \<lparr>var_readable = True, var_writable = True, var_value = 8192\<rparr>),
         (0x3000, \<lparr>var_readable = True, var_writable = False, var_value = 7\<rparr>)]\<rparr>)"
    by (simp add: scull_ioctl_def nocheck_get_user_def nocheck_put_user_def demo_defs)
  from C4_exchange [OF a b c] have d: "store_int um_uaccess demo_mem 0x1000
       (scull_quantum ((loaded_state book_scull_h)\<lparr>scull_quantum := 8192\<rparr>)) =
     Some (demo_mem\<lparr>int_vars :=
        [(0x1000, \<lparr>var_readable = True, var_writable = True, var_value = 8192\<rparr>),
         (0x3000, \<lparr>var_readable = True, var_writable = False, var_value = 7\<rparr>)]\<rparr>)"
    by (rule conjunct2)
  show ?thesis by (intro conjI a b c d)
qed

subsection \<open>C5: shift against query and tell\<close>

text \<open>
  C5, as amended. When the argument words of the calls pass the checks of the
  dispatcher, \<open>SCULL_IOCHQUANTUM\<close> with \<open>v\<close> does what \<open>SCULL_IOCQQUANTUM\<close> followed by
  \<open>SCULL_IOCTQUANTUM\<close> with \<open>v\<close> does: the same result, the same state, the same caller's
  memory; it returns the previous quantum and leaves the quantum equal to \<open>v\<close> (truncated
  to an \<open>int\<close>).
\<close>

theorem C5_shift_equivalence:
  assumes "labels_distinct h"
    and "checks_pass K h um (SCULL_IOCHQUANTUM h) v"
    and "checks_pass K h um (SCULL_IOCQQUANTUM h) a"
    and "checks_pass K h um (SCULL_IOCTQUANTUM h) v"
  shows "scull_ioctl K h cur km s um (SCULL_IOCHQUANTUM h) v = query_then_tell K h cur km s um a v \<and>
         scull_ioctl K h cur km s um (SCULL_IOCHQUANTUM h) v =
           (scast (scull_quantum s), s\<lparr>scull_quantum := ucast v\<rparr>, um)"
  by (simp add: query_then_tell_def ioctl_SHIFT [OF assms(1,2)] ioctl_QUERY [OF assms(1,3)]
      ioctl_TELL [OF assms(1,4)])

theorem C5_witness:
  "labels_distinct book_scull_h \<and>
   checks_pass um_uaccess book_scull_h demo_mem (SCULL_IOCHQUANTUM book_scull_h) 99 \<and>
   checks_pass um_uaccess book_scull_h demo_mem (SCULL_IOCQQUANTUM book_scull_h) 0 \<and>
   checks_pass um_uaccess book_scull_h demo_mem (SCULL_IOCTQUANTUM book_scull_h) 99 \<and>
   scull_ioctl um_uaccess book_scull_h (task_of 10 10) True
     ((loaded_state book_scull_h)\<lparr>scull_quantum := 1\<rparr>) demo_mem
     (SCULL_IOCHQUANTUM book_scull_h) 99 =
   query_then_tell um_uaccess book_scull_h (task_of 10 10) True
     ((loaded_state book_scull_h)\<lparr>scull_quantum := 1\<rparr>) demo_mem 0 99 \<and>
   scull_ioctl um_uaccess book_scull_h (task_of 10 10) True
     ((loaded_state book_scull_h)\<lparr>scull_quantum := 1\<rparr>) demo_mem
     (SCULL_IOCHQUANTUM book_scull_h) 99 =
     (1, (loaded_state book_scull_h)\<lparr>scull_quantum := 99\<rparr>, demo_mem)"
proof -
  have a: "labels_distinct book_scull_h" by (rule book_labels_distinct)
  have b: "checks_pass um_uaccess book_scull_h demo_mem (SCULL_IOCHQUANTUM book_scull_h) 99"
    by (simp add: checks_pass_def demo_defs)
  have c: "checks_pass um_uaccess book_scull_h demo_mem (SCULL_IOCQQUANTUM book_scull_h) 0"
    by (simp add: checks_pass_def demo_defs)
  have d: "checks_pass um_uaccess book_scull_h demo_mem (SCULL_IOCTQUANTUM book_scull_h) 99"
    by (simp add: checks_pass_def demo_defs)
  note t = C5_shift_equivalence [OF a b c d, of "task_of 10 10" True
      "(loaded_state book_scull_h)\<lparr>scull_quantum := 1\<rparr>"]
  have e: "scull_ioctl um_uaccess book_scull_h (task_of 10 10) True
     ((loaded_state book_scull_h)\<lparr>scull_quantum := 1\<rparr>) demo_mem
     (SCULL_IOCHQUANTUM book_scull_h) 99 =
   query_then_tell um_uaccess book_scull_h (task_of 10 10) True
     ((loaded_state book_scull_h)\<lparr>scull_quantum := 1\<rparr>) demo_mem 0 99"
    using t by (rule conjunct1)
  have f: "scull_ioctl um_uaccess book_scull_h (task_of 10 10) True
     ((loaded_state book_scull_h)\<lparr>scull_quantum := 1\<rparr>) demo_mem
     (SCULL_IOCHQUANTUM book_scull_h) 99 =
     (1, (loaded_state book_scull_h)\<lparr>scull_quantum := 99\<rparr>, demo_mem)"
    using t [THEN conjunct2] by simp
  show ?thesis by (intro conjI a b c d e f)
qed

text \<open>
  C5 as stated fails for a value that \<open>access_ok\<close> rejects as an address: the shift
  returns \<open>-EFAULT\<close> and leaves the quantum 4000, neither the previous quantum as result
  nor the new value in the quantum, while the sequential program returns 4000.
\<close>

theorem C5_counterexample:
  "scull_ioctl um_uaccess book_scull_h (task_of 10 10) True (loaded_state book_scull_h) demo_mem
     (SCULL_IOCHQUANTUM book_scull_h) 0xFFFFFFFFFFFFFFFF =
     (- 14, loaded_state book_scull_h, demo_mem) \<and>
   query_then_tell um_uaccess book_scull_h (task_of 10 10) True (loaded_state book_scull_h)
     demo_mem 0 0xFFFFFFFFFFFFFFFF = (4000, loaded_state book_scull_h, demo_mem) \<and>
   scull_quantum (loaded_state book_scull_h) = 4000 \<and>
   (ucast (0xFFFFFFFFFFFFFFFF :: c_ulong) :: c_int) = - 1"
  by (simp add: query_then_tell_def scull_ioctl_def demo_defs)

subsection \<open>C6: reset, then query\<close>

text \<open>
  C6, as amended. After any sequence of calls from any state, a \<open>SCULL_IOCRESET\<close> and a
  following \<open>SCULL_IOCQQUANTUM\<close> whose argument words pass the checks of the dispatcher
  yield the default quantum, and a second such \<open>SCULL_IOCRESET\<close> changes nothing.
\<close>

theorem C6_reset_then_query:
  assumes "labels_distinct h"
    and "checks_pass K h um1 (SCULL_IOCRESET h) a1"
    and "checks_pass K h um2 (SCULL_IOCQQUANTUM h) a2"
    and "checks_pass K h um3 (SCULL_IOCRESET h) a3"
  shows "fst (scull_ioctl K h cur2 km2
               (fst (snd (scull_ioctl K h cur1 km1 (run_calls K h s0 cs) um1 (SCULL_IOCRESET h) a1)))
               um2 (SCULL_IOCQQUANTUM h) a2) = scast (SCULL_QUANTUM h) \<and>
         fst (snd (scull_ioctl K h cur3 km3
               (fst (snd (scull_ioctl K h cur1 km1 (run_calls K h s0 cs) um1 (SCULL_IOCRESET h) a1)))
               um3 (SCULL_IOCRESET h) a3)) =
           fst (snd (scull_ioctl K h cur1 km1 (run_calls K h s0 cs) um1 (SCULL_IOCRESET h) a1))"
  by (simp add: ioctl_RESET [OF assms(2)] ioctl_RESET [OF assms(4)] ioctl_QUERY [OF assms(1,3)])

theorem C6_witness:
  "labels_distinct book_scull_h \<and>
   checks_pass um_uaccess book_scull_h demo_mem (SCULL_IOCRESET book_scull_h) 0 \<and>
   checks_pass um_uaccess book_scull_h demo_mem (SCULL_IOCQQUANTUM book_scull_h) 0 \<and>
   fst (scull_ioctl um_uaccess book_scull_h (task_of 10 10) True
          (fst (snd (scull_ioctl um_uaccess book_scull_h (task_of 10 10) True
             (run_calls um_uaccess book_scull_h (loaded_state book_scull_h)
                [\<lparr>call_current = task_of 11 11, call_kmalloc_ok = True, call_um = demo_mem,
                  call_cmd = SCULL_IOCTQUANTUM book_scull_h, call_arg = 8192\<rparr>])
             demo_mem (SCULL_IOCRESET book_scull_h) 0)))
          demo_mem (SCULL_IOCQQUANTUM book_scull_h) 0) = 4000"
proof -
  have a: "labels_distinct book_scull_h" by (rule book_labels_distinct)
  have b: "checks_pass um_uaccess book_scull_h demo_mem (SCULL_IOCRESET book_scull_h) 0"
    by (simp add: checks_pass_def demo_defs)
  have c: "checks_pass um_uaccess book_scull_h demo_mem (SCULL_IOCQQUANTUM book_scull_h) 0"
    by (simp add: checks_pass_def demo_defs)
  have v: "(scast (SCULL_QUANTUM book_scull_h) :: c_long) = 4000"
    by (simp add: book_scull_h_def)
  have d: "fst (scull_ioctl um_uaccess book_scull_h (task_of 10 10) True
          (fst (snd (scull_ioctl um_uaccess book_scull_h (task_of 10 10) True
             (run_calls um_uaccess book_scull_h (loaded_state book_scull_h)
                [\<lparr>call_current = task_of 11 11, call_kmalloc_ok = True, call_um = demo_mem,
                  call_cmd = SCULL_IOCTQUANTUM book_scull_h, call_arg = 8192\<rparr>])
             demo_mem (SCULL_IOCRESET book_scull_h) 0)))
          demo_mem (SCULL_IOCQQUANTUM book_scull_h) 0) = 4000"
    using C6_reset_then_query [OF a b c b, THEN conjunct1] unfolding v .
  show ?thesis by (intro conjI a b c d)
qed

text \<open>
  C6 as stated fails when the argument word that arrives with the reset is rejected by
  \<open>access_ok\<close>: the reset returns \<open>-EFAULT\<close>, and the query then returns the old quantum 1,
  not the default 4000.
\<close>

theorem C6_counterexample:
  "fst (scull_ioctl um_uaccess book_scull_h (task_of 10 10) True
          (fst (snd (scull_ioctl um_uaccess book_scull_h (task_of 10 10) True
             ((loaded_state book_scull_h)\<lparr>scull_quantum := 1\<rparr>)
             demo_mem (SCULL_IOCRESET book_scull_h) 0xFFFFFFFFFFFFFFFF)))
          demo_mem (SCULL_IOCQQUANTUM book_scull_h) 0) = 1 \<and>
   fst (scull_ioctl um_uaccess book_scull_h (task_of 10 10) True
          ((loaded_state book_scull_h)\<lparr>scull_quantum := 1\<rparr>)
          demo_mem (SCULL_IOCRESET book_scull_h) 0xFFFFFFFFFFFFFFFF) = - 14 \<and>
   (scast (SCULL_QUANTUM book_scull_h) :: c_long) = 4000"
  by (simp add: scull_ioctl_def demo_defs)

subsection \<open>C7: command words outside the eight\<close>

text \<open>
  C7, at a failing input. The command word \<open>_IOW(k, 0, int)\<close> has the magic type and the
  number 0 but is none of the eight labels; sent with an argument outside the user
  address range it is answered with \<open>-EFAULT\<close>, not with \<open>-ENOTTY\<close> (the state is not
  changed).
\<close>

theorem C7_unmatched_command_efault:
  "IOC_TYPE 0x40046B00 = SCULL_IOC_MAGIC book_scull_h \<and>
   IOC_NR 0x40046B00 \<le> SCULL_IOC_MAXNR book_scull_h \<and>
   0x40046B00 \<notin> set (case_labels book_scull_h) \<and>
   scull_ioctl um_uaccess book_scull_h (task_of 10 10) True (loaded_state book_scull_h) demo_mem
     0x40046B00 0xFFFFFFFFFFFFFFFF = (scast (- EFAULT), loaded_state book_scull_h, demo_mem) \<and>
   (scast (- EFAULT) :: c_long) \<noteq> scast (- ENOTTY)"
  by (simp add: scull_ioctl_def case_labels_def demo_defs)

subsection \<open>C8: a failed allocation\<close>

text \<open>
  C8. When a \<open>SCULL_IOCIQUANTUM\<close> call has passed the checks, its \<open>copy_to_user\<close> has
  copied everything, the caller is not yet in the list and \<open>kmalloc\<close> fails, the call
  returns 0, the caller's memory holds the copy, and the state differs only by the
  line printed: the list and the quantum are unchanged.
\<close>

theorem C8_alloc_failure_not_surfaced:
  assumes "labels_distinct h"
    and "checks_pass K h um (SCULL_IOCIQUANTUM h) arg"
    and "copy_to_user K um arg (fill_tmp_struct cur) = (0, um')"
    and "\<not> find_task (task_info_node_list s) (ts_pid cur) (ts_tgid cur)"
  shows "scull_ioctl K h cur False s um (SCULL_IOCIQUANTUM h) arg =
           (0, s\<lparr>klog := klog s @ [KERN_ERR_alloc_failed]\<rparr>, um')"
  using assms(3,4) ioctl_IDENTIFY [OF assms(1,2), of cur False s]
  by (simp add: scull_iociquantum_def)

theorem C8_witness:
  "labels_distinct book_scull_h \<and>
   checks_pass um_uaccess book_scull_h demo_mem (SCULL_IOCIQUANTUM book_scull_h) 0x2000 \<and>
   copy_to_user um_uaccess demo_mem 0x2000 (fill_tmp_struct (task_of 10 10)) =
     (0, demo_mem\<lparr>task_bufs := [(0x2000, Some (fill_tmp_struct (task_of 10 10)))]\<rparr>) \<and>
   \<not> find_task (task_info_node_list (loaded_state book_scull_h))
        (ts_pid (task_of 10 10)) (ts_tgid (task_of 10 10)) \<and>
   scull_ioctl um_uaccess book_scull_h (task_of 10 10) False (loaded_state book_scull_h) demo_mem
     (SCULL_IOCIQUANTUM book_scull_h) 0x2000 =
     (0, (loaded_state book_scull_h)\<lparr>klog := [KERN_ERR_alloc_failed]\<rparr>,
      demo_mem\<lparr>task_bufs := [(0x2000, Some (fill_tmp_struct (task_of 10 10)))]\<rparr>)"
proof -
  have a: "labels_distinct book_scull_h" by (rule book_labels_distinct)
  have b: "checks_pass um_uaccess book_scull_h demo_mem (SCULL_IOCIQUANTUM book_scull_h) 0x2000"
    by (simp add: checks_pass_def demo_defs)
  have c: "copy_to_user um_uaccess demo_mem 0x2000 (fill_tmp_struct (task_of 10 10)) =
     (0, demo_mem\<lparr>task_bufs := [(0x2000, Some (fill_tmp_struct (task_of 10 10)))]\<rparr>)"
    by (simp add: demo_defs)
  have d: "\<not> find_task (task_info_node_list (loaded_state book_scull_h))
        (ts_pid (task_of 10 10)) (ts_tgid (task_of 10 10))"
    by (simp add: loaded_state_def)
  show ?thesis using a b c d C8_alloc_failure_not_surfaced [OF a b c d]
    by (simp add: loaded_state_def)
qed

subsection \<open>C9: draining twice\<close>

text \<open>
  C9. The cleanup of a state with an empty list changes nothing and prints nothing;
  after any cleanup the list is empty; a second cleanup changes nothing.
\<close>

theorem C9_drain_idempotent:
  "(task_info_node_list s = [] \<longrightarrow> scull_cleanup_module s = s) \<and>
   task_info_node_list (scull_cleanup_module s) = [] \<and>
   scull_cleanup_module (scull_cleanup_module s) = scull_cleanup_module s"
  by (simp add: cleanup_eq)

theorem C9_witness:
  "task_info_node_list (loaded_state book_scull_h) = [] \<and>
   scull_cleanup_module (loaded_state book_scull_h) = loaded_state book_scull_h"
  using C9_drain_idempotent [of "loaded_state book_scull_h"] by (simp add: loaded_state_def)

subsection \<open>C10: tell and shift truncate their argument\<close>

text \<open>
  C10, as amended. For every argument \<open>a\<close> that passes the checks of the dispatcher, after
  \<open>SCULL_IOCTQUANTUM\<close> or \<open>SCULL_IOCHQUANTUM\<close> with \<open>a\<close> the quantum is \<open>a\<close> modulo \<open>2^32\<close>
  read as a signed 32-bit integer.
\<close>

theorem C10_tell_shift_truncate:
  assumes "labels_distinct h"
    and "cmd = SCULL_IOCTQUANTUM h \<or> cmd = SCULL_IOCHQUANTUM h"
    and "checks_pass K h um cmd a"
  shows "sint (scull_quantum (fst (snd (scull_ioctl K h cur km s um cmd a)))) =
           (let m = uint a mod 2 ^ 32 in if m < 2 ^ 31 then m else m - 2 ^ 32)"
proof -
  have "scull_quantum (fst (snd (scull_ioctl K h cur km s um cmd a))) = ucast a"
    using assms(2)
  proof
    assume c: "cmd = SCULL_IOCTQUANTUM h"
    show ?thesis using ioctl_TELL [OF assms(1) assms(3) [unfolded c], of cur km s] by (simp add: c)
  next
    assume c: "cmd = SCULL_IOCHQUANTUM h"
    show ?thesis using ioctl_SHIFT [OF assms(1) assms(3) [unfolded c], of cur km s] by (simp add: c)
  qed
  then show ?thesis by (simp only: sint_ucast_long)
qed

theorem C10_witness:
  "labels_distinct book_scull_h \<and>
   checks_pass um_uaccess book_scull_h demo_mem (SCULL_IOCTQUANTUM book_scull_h) 0xFFFFFFFF \<and>
   sint (scull_quantum (fst (snd (scull_ioctl um_uaccess book_scull_h (task_of 10 10) True
      (loaded_state book_scull_h) demo_mem (SCULL_IOCTQUANTUM book_scull_h) 0xFFFFFFFF)))) = - 1"
proof -
  have a: "labels_distinct book_scull_h" by (rule book_labels_distinct)
  have b: "SCULL_IOCTQUANTUM book_scull_h = SCULL_IOCTQUANTUM book_scull_h \<or>
           SCULL_IOCTQUANTUM book_scull_h = SCULL_IOCHQUANTUM book_scull_h" by simp
  have c: "checks_pass um_uaccess book_scull_h demo_mem (SCULL_IOCTQUANTUM book_scull_h) 0xFFFFFFFF"
    by (simp add: checks_pass_def demo_defs)
  have d: "sint (scull_quantum (fst (snd (scull_ioctl um_uaccess book_scull_h (task_of 10 10) True
      (loaded_state book_scull_h) demo_mem (SCULL_IOCTQUANTUM book_scull_h) 0xFFFFFFFF)))) = - 1"
    using C10_tell_shift_truncate [OF a b c, of "task_of 10 10" True "loaded_state book_scull_h"]
    by simp
  show ?thesis by (intro conjI a c d)
qed

text \<open>
  C10 as stated fails for an argument that \<open>access_ok\<close> rejects as an address: the call
  fails with \<open>-EFAULT\<close> and the quantum stays 4000, where the claim has it wrap to -1.
\<close>

theorem C10_counterexample:
  "scull_ioctl um_uaccess book_scull_h (task_of 10 10) True (loaded_state book_scull_h) demo_mem
     (SCULL_IOCTQUANTUM book_scull_h) 0xFFFFFFFFFFFFFFFF =
     (- 14, loaded_state book_scull_h, demo_mem) \<and>
   sint (scull_quantum (loaded_state book_scull_h)) = 4000 \<and>
   uint (0xFFFFFFFFFFFFFFFF :: c_ulong) mod 2 ^ 32 - 2 ^ 32 = - 1"
  by (simp add: scull_ioctl_def demo_defs)

end
